theory Spec2Isabelle
  imports Complex_Main "HOL-Library.Sublist"
begin

section \<open>Numbers of the statistical core\<close>

text \<open>
  The analyzer of \<^verbatim>\<open>trade_economics_analysis.py\<close> computes with IEEE doubles through
  pandas and numpy. A finite double is modelled by the real number it stands for, and the
  arithmetic is exact: rounding is left out, except in the second form of the outlier
  filter below, where it decides which records on a bound are kept. The three special
  values are kept, because the program produces them
  from finite inputs: \<^verbatim>\<open>NaN\<close> as the quantile or mean of an empty column and as the
  standard deviation of fewer than two observations, and the infinities as a numpy
  division by zero (which warns, and does not raise). Negative zero is not modelled.
\<close>

datatype fnum = Fin real | PInf | NInf | NaN

instantiation fnum :: "{plus, minus, uminus, times, inverse, abs, ord}"
begin

fun uminus_fnum :: "fnum \<Rightarrow> fnum" where
  "uminus_fnum (Fin a) = Fin (- a)"
| "uminus_fnum PInf = NInf"
| "uminus_fnum NInf = PInf"
| "uminus_fnum NaN = NaN"

fun plus_fnum :: "fnum \<Rightarrow> fnum \<Rightarrow> fnum" where
  "plus_fnum (Fin a) (Fin b) = Fin (a + b)"
| "plus_fnum NaN _ = NaN"
| "plus_fnum _ NaN = NaN"
| "plus_fnum PInf NInf = NaN"
| "plus_fnum NInf PInf = NaN"
| "plus_fnum PInf _ = PInf"
| "plus_fnum _ PInf = PInf"
| "plus_fnum NInf _ = NInf"
| "plus_fnum _ NInf = NInf"

definition minus_fnum :: "fnum \<Rightarrow> fnum \<Rightarrow> fnum" where
  "minus_fnum x y = x + (- y)"

fun times_fnum :: "fnum \<Rightarrow> fnum \<Rightarrow> fnum" where
  "times_fnum (Fin a) (Fin b) = Fin (a * b)"
| "times_fnum NaN _ = NaN"
| "times_fnum _ NaN = NaN"
| "times_fnum (Fin a) PInf = (if 0 < a then PInf else if a < 0 then NInf else NaN)"
| "times_fnum (Fin a) NInf = (if 0 < a then NInf else if a < 0 then PInf else NaN)"
| "times_fnum PInf (Fin b) = (if 0 < b then PInf else if b < 0 then NInf else NaN)"
| "times_fnum NInf (Fin b) = (if 0 < b then NInf else if b < 0 then PInf else NaN)"
| "times_fnum PInf PInf = PInf"
| "times_fnum PInf NInf = NInf"
| "times_fnum NInf PInf = NInf"
| "times_fnum NInf NInf = PInf"

fun divide_fnum :: "fnum \<Rightarrow> fnum \<Rightarrow> fnum" where
  "divide_fnum (Fin a) (Fin b) =
     (if b \<noteq> 0 then Fin (a / b)
      else if 0 < a then PInf else if a < 0 then NInf else NaN)"
| "divide_fnum NaN _ = NaN"
| "divide_fnum _ NaN = NaN"
| "divide_fnum (Fin a) PInf = Fin 0"
| "divide_fnum (Fin a) NInf = Fin 0"
| "divide_fnum PInf (Fin b) = (if 0 \<le> b then PInf else NInf)"
| "divide_fnum NInf (Fin b) = (if 0 \<le> b then NInf else PInf)"
| "divide_fnum PInf PInf = NaN"
| "divide_fnum PInf NInf = NaN"
| "divide_fnum NInf PInf = NaN"
| "divide_fnum NInf NInf = NaN"

definition inverse_fnum :: "fnum \<Rightarrow> fnum" where
  "inverse_fnum x = divide (Fin 1) x"

fun abs_fnum :: "fnum \<Rightarrow> fnum" where
  "abs_fnum (Fin a) = Fin \<bar>a\<bar>"
| "abs_fnum PInf = PInf"
| "abs_fnum NInf = PInf"
| "abs_fnum NaN = NaN"

fun less_fnum :: "fnum \<Rightarrow> fnum \<Rightarrow> bool" where
  "less_fnum (Fin a) (Fin b) = (a < b)"
| "less_fnum NaN _ = False"
| "less_fnum _ NaN = False"
| "less_fnum _ NInf = False"
| "less_fnum PInf _ = False"
| "less_fnum NInf _ = True"
| "less_fnum _ PInf = True"

fun less_eq_fnum :: "fnum \<Rightarrow> fnum \<Rightarrow> bool" where
  "less_eq_fnum (Fin a) (Fin b) = (a \<le> b)"
| "less_eq_fnum NaN _ = False"
| "less_eq_fnum _ NaN = False"
| "less_eq_fnum NInf _ = True"
| "less_eq_fnum _ PInf = True"
| "less_eq_fnum _ NInf = False"
| "less_eq_fnum PInf _ = False"

instance ..

end

text \<open>\<^verbatim>\<open>np.exp\<close>, on the special values as IEEE has it.\<close>

fun np_exp :: "fnum \<Rightarrow> fnum" where
  "np_exp (Fin a) = Fin (exp a)"
| "np_exp PInf = PInf"
| "np_exp NInf = Fin 0"
| "np_exp NaN = NaN"

text \<open>
  Python's builtin \<^verbatim>\<open>max(a, b)\<close> and \<^verbatim>\<open>min(a, b)\<close> keep the first argument unless
  the second compares strictly greater (smaller), so a \<^verbatim>\<open>NaN\<close> second argument loses.
\<close>

definition py_max :: "fnum \<Rightarrow> fnum \<Rightarrow> fnum" where
  "py_max a b = (if a < b then b else a)"

definition py_min :: "fnum \<Rightarrow> fnum \<Rightarrow> fnum" where
  "py_min a b = (if b < a then b else a)"

section \<open>Data model\<close>

text \<open>
  A row of \<^verbatim>\<open>self.df\<close>. The timestamp is the nanosecond count pandas stores; a
  DataFrame of trades is the list of its rows, and a boolean-mask selection is a
  \<^const>\<open>filter\<close>.
\<close>

record trade =
  item_id :: int
  item_name :: string
  time :: int
  price :: real
  amount :: int

text \<open>An entry of \<^verbatim>\<open>self.all_shop_items\<close>, as \<^verbatim>\<open>_build_shop_data\<close> builds it.\<close>

record shop_item =
  shop_item_id :: int
  name :: string
  cost :: real
  currency :: string
  currency_id :: nat

datatype error = IndexError

definition day_ns :: int where
  "day_ns = 86400 * 1000000000"

text \<open>\<^verbatim>\<open>TODAY = datetime(2026, 1, 15)\<close>, in nanoseconds since the epoch.\<close>

definition TODAY :: int where
  "TODAY = 1768435200 * 1000000000"

section \<open>Column statistics\<close>

text \<open>
  \<^verbatim>\<open>Series.quantile(q)\<close> is numpy's linear method: on the sorted values, at the virtual
  index \<open>(n - 1) * q\<close>, interpolate between the value below and the value above (clipped
  to the last). \<open>lerp_quantile\<close> is that computation for a column with at least one value
  and \<open>0 \<le> q \<le> 1\<close> (the source passes 0.25, 0.5 and 0.75 only); of an empty column the
  quantile is \<^verbatim>\<open>NaN\<close>.
\<close>

definition lerp_quantile :: "real list \<Rightarrow> real \<Rightarrow> real" where
  "lerp_quantile xs q =
     (let s = sort xs;
          n = length s;
          virtual_index = real (n - 1) * q;
          previous_index = nat \<lfloor>virtual_index\<rfloor>;
          next_index = min (previous_index + 1) (n - 1);
          gamma = virtual_index - real previous_index
      in s ! previous_index + (s ! next_index - s ! previous_index) * gamma)"

definition quantile :: "real list \<Rightarrow> real \<Rightarrow> fnum" where
  "quantile xs q = (if xs = [] then NaN else Fin (lerp_quantile xs q))"

text \<open>\<^verbatim>\<open>Series.mean()\<close>, \<^verbatim>\<open>Series.median()\<close>, \<^verbatim>\<open>Series.min()\<close>, \<^verbatim>\<open>Series.max()\<close>.\<close>

definition mean :: "real list \<Rightarrow> fnum" where
  "mean xs = (if xs = [] then NaN else Fin (sum_list xs / real (length xs)))"

definition median :: "real list \<Rightarrow> fnum" where
  "median xs =
     (if xs = [] then NaN
      else let s = sort xs; n = length s
           in if odd n then Fin (s ! (n div 2))
              else Fin ((s ! (n div 2 - 1) + s ! (n div 2)) / 2))"

fun series_min :: "real list \<Rightarrow> fnum" where
  "series_min [] = NaN"
| "series_min (x # xs) = Fin (fold min xs x)"

fun series_max :: "real list \<Rightarrow> fnum" where
  "series_max [] = NaN"
| "series_max (x # xs) = Fin (fold max xs x)"

text \<open>
  \<^verbatim>\<open>Series.std()\<close> is the sample standard deviation (one degree of freedom removed):
  \<^verbatim>\<open>NaN\<close> for fewer than two observations.
\<close>

definition std :: "real list \<Rightarrow> fnum" where
  "std xs =
     (if length xs < 2 then NaN
      else let m = sum_list xs / real (length xs)
           in Fin (sqrt (sum_list (map (\<lambda>x. (x - m)\<^sup>2) xs) / real (length xs - 1))))"

text \<open>
  \<^verbatim>\<open>(g['time'].max() - g['time'].min()).days or 1\<close>: the whole days between the first
  and the last trade, and 1 when that is 0. Every caller passes a frame that holds a row.
\<close>

definition days_active_of :: "trade list \<Rightarrow> int" where
  "days_active_of g =
     (let days = (Max (set (map time g)) - Min (set (map time g))) div day_ns
      in if days = 0 then 1 else days)"

text \<open>
  \<^verbatim>\<open>sort_values('time')\<close>: ascending by timestamp. The model keeps equal timestamps in
  their order of arrival.
\<close>

definition sort_by_time :: "trade list \<Rightarrow> trade list" where
  "sort_by_time g = sort_key time g"

section \<open>Outlier filter\<close>

text \<open>
  The filter in exact arithmetic. It is the filter of the next section with the identity
  for the rounding, and it agrees with the program wherever no price lies within a
  rounding error of a bound.
\<close>

definition detect_and_clean_outliers :: "trade list \<Rightarrow> trade list" where
  "detect_and_clean_outliers grp =
     (let Q1 = quantile (map price grp) (1/4);
          Q3 = quantile (map price grp) (3/4);
          IQR = Q3 - Q1;
          lower_bound = Q1 - Fin 3 * IQR;
          upper_bound = Q3 + Fin 3 * IQR
      in filter (\<lambda>t. lower_bound \<le> Fin (price t) \<and> Fin (price t) \<le> upper_bound) grp)"

text \<open>
  The idiom after every call of the filter:
  \<^verbatim>\<open>if len(clean_group) == 0: clean_group = group\<close>.
\<close>

definition clean_or_original :: "trade list \<Rightarrow> trade list" where
  "clean_or_original grp =
     (let clean_group = detect_and_clean_outliers grp
      in if length clean_group = 0 then grp else clean_group)"

section \<open>Outlier filter in double arithmetic\<close>

text \<open>
  The same filter with the rounding of the doubles explicit. \<open>rnd\<close> is the rounding that
  ends every arithmetic operation on doubles; with the identity for \<open>rnd\<close> the
  definitions below are the ones above. The prices of a frame are doubles, so they enter
  unrounded; the comparisons of the mask are exact.

  \<open>np_lerp\<close> is numpy's \<^verbatim>\<open>_lerp(a, b, t)\<close>: \<^verbatim>\<open>a + (b - a) * t\<close>, replaced by
  \<^verbatim>\<open>b - (b - a) * (1 - t)\<close> where \<^verbatim>\<open>t >= 0.5\<close>. \<open>quantile_fl\<close> is numpy's linear
  quantile around it: the virtual index \<^verbatim>\<open>(n - 1) * q\<close>, its floor and the next index,
  both set to the last index \<open>-1\<close> where the virtual index is not below \<open>n - 1\<close> and to 0
  where it is negative, and \<^verbatim>\<open>gamma\<close> the virtual index less the index below.
\<close>

definition fl :: "(real \<Rightarrow> real) \<Rightarrow> fnum \<Rightarrow> fnum" where
  "fl rnd x = (case x of Fin a \<Rightarrow> Fin (rnd a) | _ \<Rightarrow> x)"

definition np_lerp :: "(real \<Rightarrow> real) \<Rightarrow> real \<Rightarrow> real \<Rightarrow> real \<Rightarrow> real" where
  "np_lerp rnd a b t =
     (let diff_b_a = rnd (b - a)
      in if 1/2 \<le> t then rnd (b - rnd (diff_b_a * rnd (1 - t)))
         else rnd (a + rnd (diff_b_a * t)))"

text \<open>Python's indexing of a list: a negative index counts from the end.\<close>

definition py_nth :: "'a list \<Rightarrow> int \<Rightarrow> 'a" where
  "py_nth xs i = xs ! nat (if i < 0 then int (length xs) + i else i)"

definition quantile_fl :: "(real \<Rightarrow> real) \<Rightarrow> real list \<Rightarrow> real \<Rightarrow> fnum" where
  "quantile_fl rnd xs q =
     (if xs = [] then NaN
      else
        let s = sort xs;
            n = length s;
            virtual_index = rnd (real (n - 1) * q);
            above = (real (n - 1) \<le> virtual_index);
            below = (virtual_index < 0);
            previous_index = (if below then 0 else if above then - 1 else \<lfloor>virtual_index\<rfloor>);
            next_index = (if below then 0 else if above then - 1 else \<lfloor>virtual_index\<rfloor> + 1);
            gamma = rnd (virtual_index - real_of_int previous_index)
        in Fin (np_lerp rnd (py_nth s previous_index) (py_nth s next_index) gamma))"

definition detect_and_clean_outliers_fl :: "(real \<Rightarrow> real) \<Rightarrow> trade list \<Rightarrow> trade list" where
  "detect_and_clean_outliers_fl rnd grp =
     (let Q1 = quantile_fl rnd (map price grp) (1/4);
          Q3 = quantile_fl rnd (map price grp) (3/4);
          IQR = fl rnd (Q3 - Q1);
          lower_bound = fl rnd (Q1 - fl rnd (Fin 3 * IQR));
          upper_bound = fl rnd (Q3 + fl rnd (Fin 3 * IQR))
      in filter (\<lambda>t. lower_bound \<le> Fin (price t) \<and> Fin (price t) \<le> upper_bound) grp)"

text \<open>The fallback idiom around the rounded filter.\<close>

definition clean_or_original_fl :: "(real \<Rightarrow> real) \<Rightarrow> trade list \<Rightarrow> trade list" where
  "clean_or_original_fl rnd grp =
     (let clean_group = detect_and_clean_outliers_fl rnd grp
      in if length clean_group = 0 then grp else clean_group)"

section \<open>Recency-weighted estimator\<close>

definition EWMA_ALPHA :: real where
  "EWMA_ALPHA = 3 / 10"

text \<open>\<^verbatim>\<open>np.cumsum\<close>: the running sums, the first being the first element itself.\<close>

fun cumsum_from :: "fnum \<Rightarrow> fnum list \<Rightarrow> fnum list" where
  "cumsum_from acc [] = []"
| "cumsum_from acc (x # xs) = (acc + x) # cumsum_from (acc + x) xs"

fun np_cumsum :: "fnum list \<Rightarrow> fnum list" where
  "np_cumsum [] = []"
| "np_cumsum (x # xs) = x # cumsum_from x xs"

text \<open>
  \<^verbatim>\<open>np.searchsorted(a, v)\<close> (side left) on an ascending array: the first index whose
  element is not below \<open>v\<close>, the length of the array when every element is below. The
  array searched here holds the running sums of the weights, which ascend as long as no
  weight is negative.
\<close>

definition searchsorted :: "fnum list \<Rightarrow> fnum \<Rightarrow> nat" where
  "searchsorted a v = length (takeWhile (\<lambda>c. c < v) a)"

text \<open>
  \<^verbatim>\<open>np.argsort(prices)\<close>: the indices in ascending order of price, equal prices in
  index order. Indexing \<^verbatim>\<open>sorted_prices[median_idx]\<close> past the end raises.
\<close>

definition argsort :: "real list \<Rightarrow> nat list" where
  "argsort prices = sort_key (\<lambda>i. prices ! i) [0..<length prices]"

definition calculate_ewma_median :: "trade list \<Rightarrow> real \<Rightarrow> error + real" where
  "calculate_ewma_median grp alpha =
     (if length grp = 0 then Inr 0
      else
        let sorted_group = sort_by_time grp;
            prices = map price sorted_group;
            n = length prices;
            raw_weights = map (\<lambda>i. (1 - alpha) ^ (n - i - 1)) [0..<n];
            weights = map (\<lambda>w. Fin w / Fin (sum_list raw_weights)) raw_weights;
            sorted_indices = argsort prices;
            sorted_prices = map (\<lambda>i. prices ! i) sorted_indices;
            sorted_weights = map (\<lambda>i. weights ! i) sorted_indices;
            cumulative_weight = np_cumsum sorted_weights;
            median_idx = searchsorted cumulative_weight (Fin (1/2))
        in if median_idx < length sorted_prices then Inr (sorted_prices ! median_idx)
           else Inl IndexError)"

section \<open>Zone classifier\<close>

record zones =
  excellent :: fnum
  good :: fnum
  fair :: fnum
  overpriced :: fnum
  avoid :: fnum

definition calculate_purchase_zones :: "trade list \<Rightarrow> real \<Rightarrow> zones" where
  "calculate_purchase_zones grp shop_cost =
     (if length grp = 0
      then \<lparr>excellent = Fin 0, good = Fin 0, fair = Fin 0, overpriced = Fin 0, avoid = Fin 0\<rparr>
      else
        let clean_group = clean_or_original grp;
            Q1 = quantile (map price clean_group) (1/4);
            Q2 = quantile (map price clean_group) (1/2);
            Q3 = quantile (map price clean_group) (3/4);
            IQR = Q3 - Q1
        in \<lparr>excellent = Q1,
            good = Q2 - Fin (1/4) * IQR,
            fair = Q2 + Fin (1/4) * IQR,
            overpriced = Q3,
            avoid = Q3 + Fin (1/2) * IQR\<rparr>)"

section \<open>Confidence scorer\<close>

definition sample_score :: "trade list \<Rightarrow> fnum" where
  "sample_score clean_group =
     Fin 40 * (Fin 1 - np_exp (Fin (- real (length clean_group)) / Fin 50))"

definition volatility_score :: "trade list \<Rightarrow> fnum" where
  "volatility_score clean_group =
     (let avg_price = mean (map price clean_group);
          std_price = std (map price clean_group);
          cv = (if Fin 0 < avg_price then std_price / avg_price * Fin 100 else Fin 100)
      in Fin 30 * np_exp (- cv / Fin 50))"

definition liquidity_score_of :: "trade list \<Rightarrow> fnum" where
  "liquidity_score_of clean_group =
     (let days_active = days_active_of clean_group;
          liquidity = Fin (real (length clean_group)) / Fin (real_of_int days_active)
      in Fin 30 * (Fin 1 - np_exp (- liquidity / Fin 2)))"

definition calculate_confidence_score :: "trade list \<Rightarrow> real \<Rightarrow> fnum" where
  "calculate_confidence_score grp shop_cost =
     (if length grp = 0 then Fin 0
      else
        let clean_group = clean_or_original grp;
            total_score = sample_score clean_group + volatility_score clean_group
                          + liquidity_score_of clean_group
        in py_min (Fin 100) (py_max (Fin 0) total_score))"

section \<open>Window analyzer\<close>

text \<open>
  A recommendation is a fixed text or an f-string around one number; the number, the
  decimals asked for and the text around it are kept, the rendering of the digits is not
  modelled.
\<close>

datatype label = Plain string | Formatted string fnum nat string

text \<open>
  The dictionary \<^verbatim>\<open>analyze_time_window\<close> returns. The keys \<^verbatim>\<open>q1\<close>, \<^verbatim>\<open>q3\<close>,
  \<^verbatim>\<open>min_price\<close> and \<^verbatim>\<open>max_price\<close> exist only when there is data: \<open>None\<close> is the
  absent key. The fields \<open>w_trade_count\<close>, \<open>w_median_price\<close>, \<open>w_min_price\<close> and
  \<open>w_max_price\<close> are the keys \<^verbatim>\<open>trade_count\<close>, \<^verbatim>\<open>median_price\<close>, \<^verbatim>\<open>min_price\<close>
  and \<^verbatim>\<open>max_price\<close> of this dictionary.
\<close>

record window_result =
  has_data :: bool
  w_trade_count :: nat
  w_median_price :: fnum
  ewma_median :: fnum
  roi :: fnum
  recommendation :: label
  confidence :: fnum
  zones :: zones
  q1 :: "fnum option"
  q3 :: "fnum option"
  w_min_price :: "fnum option"
  w_max_price :: "fnum option"

definition no_data_result :: window_result where
  "no_data_result =
     \<lparr>has_data = False, w_trade_count = 0, w_median_price = Fin 0,
      ewma_median = Fin 0, roi = Fin (- 100), recommendation = Plain ''NO DATA'',
      confidence = Fin 0,
      zones = \<lparr>excellent = Fin 0, good = Fin 0, fair = Fin 0,
               overpriced = Fin 0, avoid = Fin 0\<rparr>,
      q1 = None, q3 = None, w_min_price = None, w_max_price = None\<rparr>"

text \<open>The rows of \<^verbatim>\<open>self.df\<close> the window selects.\<close>

definition window_trades :: "trade list \<Rightarrow> int \<Rightarrow> int option \<Rightarrow> trade list" where
  "window_trades df iid window_delta =
     (case window_delta of
        None \<Rightarrow> filter (\<lambda>t. item_id t = iid) df
      | Some delta \<Rightarrow>
          (let cutoff_time = TODAY - delta
           in filter (\<lambda>t. item_id t = iid \<and> cutoff_time \<le> time t) df))"

text \<open>The chain of \<^verbatim>\<open>if\<close>/\<^verbatim>\<open>elif\<close> that words the recommendation.\<close>

definition recommend :: "fnum \<Rightarrow> fnum \<Rightarrow> zones \<Rightarrow> label" where
  "recommend roi' ewma zones' =
     (if roi' < Fin (- 15) then Formatted ''AVOID - Loss '' roi' 1 ''%''
      else if roi' < Fin 0 then Plain ''MARGINAL - Break even difficult''
      else if ewma \<le> excellent zones'
        then Formatted ''BUY NOW - Excellent price (< '' (excellent zones') 0 '')''
      else if ewma \<le> good zones'
        then Formatted ''BUY if < '' (good zones') 0 []
      else if ewma \<le> fair zones'
        then Formatted ''FAIR if < '' (fair zones') 0 []
      else Formatted ''WAIT - Overpriced (fair < '' (fair zones') 0 '')'')"

text \<open>
  \<open>window_delta\<close> is the \<^verbatim>\<open>timedelta\<close> in nanoseconds, \<open>None\<close> for the window
  \<^verbatim>\<open>all\<close>. The only statement that can raise is the indexing inside
  \<open>calculate_ewma_median\<close>.
\<close>

definition analyze_time_window ::
  "trade list \<Rightarrow> int \<Rightarrow> real \<Rightarrow> string \<Rightarrow> int option \<Rightarrow> error + window_result" where
  "analyze_time_window df iid shop_cost window_name window_delta =
     (let trades = window_trades df iid window_delta
      in if length trades = 0 then Inr no_data_result
         else
           let clean_trades = clean_or_original trades;
               median_price = median (map price clean_trades)
           in case calculate_ewma_median clean_trades EWMA_ALPHA of
                Inl e \<Rightarrow> Inl e
              | Inr ewma \<Rightarrow>
                  let roi' = (if 0 < shop_cost
                              then (Fin ewma - Fin shop_cost) / Fin shop_cost * Fin 100
                              else Fin (- 100));
                      zones' = calculate_purchase_zones clean_trades shop_cost;
                      confidence' = calculate_confidence_score clean_trades shop_cost
                  in Inr \<lparr>has_data = True, w_trade_count = length trades,
                           w_median_price = median_price, ewma_median = Fin ewma,
                           roi = roi', recommendation = recommend roi' (Fin ewma) zones',
                           confidence = confidence', zones = zones',
                           q1 = Some (quantile (map price clean_trades) (1/4)),
                           q3 = Some (quantile (map price clean_trades) (3/4)),
                           w_min_price = Some (series_min (map price clean_trades)),
                           w_max_price = Some (series_max (map price clean_trades))\<rparr>)"

section \<open>ROI aggregator\<close>

text \<open>
  A row of the frame \<^verbatim>\<open>calculate_comprehensive_roi\<close> returns. The fields \<open>r_item_id\<close>,
  \<open>r_item_name\<close> and \<open>r_currency\<close> are its columns \<^verbatim>\<open>item_id\<close>, \<^verbatim>\<open>item_name\<close> and
  \<^verbatim>\<open>currency\<close>. A primed name below is the local variable of the source that has the
  name of a column. \<open>total_volume\<close> is an unbounded integer, where the sum of the int64
  column of the program wraps around beyond \<open>2^63\<close>.
\<close>

record roi_row =
  r_item_id :: int
  r_item_name :: string
  r_currency :: string
  shop_cost :: real
  avg_price :: fnum
  median_price :: fnum
  std_price :: fnum
  min_price :: fnum
  max_price :: fnum
  p25_price :: fnum
  p75_price :: fnum
  roi_avg :: fnum
  roi_median :: fnum
  roi_min :: fnum
  roi_max :: fnum
  volatility_cv :: fnum
  price_trend_overall :: fnum
  price_trend_q1_q2 :: fnum
  price_trend_q2_q3 :: fnum
  price_trend_q3_q4 :: fnum
  trade_count :: nat
  outliers_removed :: int
  total_volume :: int
  liquidity_score :: fnum
  days_active :: int
  break_even_probability :: fnum
  avg_loss_pct :: fnum
  has_trades :: bool

text \<open>
  \<^verbatim>\<open>trade_lookup\<close>: the groups of \<^verbatim>\<open>df.groupby('item_id')\<close>, each holding the rows of
  one identifier in the order of the frame; an identifier without a row is not a key.
\<close>

definition trade_lookup :: "trade list \<Rightarrow> int \<Rightarrow> trade list option" where
  "trade_lookup df iid =
     (let grp = filter (\<lambda>t. item_id t = iid) df
      in if grp = [] then None else Some grp)"

text \<open>\<^verbatim>\<open>frame.iloc[a:b]\<close> for indices that are not negative.\<close>

definition iloc :: "nat \<Rightarrow> nat \<Rightarrow> 'a list \<Rightarrow> 'a list" where
  "iloc a b xs = drop a (take b xs)"

text \<open>
  The percentage change the trend code writes four times:
  \<^verbatim>\<open>((b - a) / a * 100) if a > 0 else 0\<close>.
\<close>

definition pct_change :: "fnum \<Rightarrow> fnum \<Rightarrow> fnum" where
  "pct_change a b = (if Fin 0 < a then (b - a) / a * Fin 100 else Fin 0)"

text \<open>
  The price trend of the time-sorted cleaned sample: overall, first to second quarter,
  second to third, third to fourth.
\<close>

definition price_trend :: "trade list \<Rightarrow> fnum \<Rightarrow> fnum \<times> fnum \<times> fnum \<times> fnum" where
  "price_trend sorted_group avg_price' =
     (if 4 \<le> length sorted_group
      then
        let quarter_size = length sorted_group div 4;
            q1_avg = mean (map price (take quarter_size sorted_group));
            q2_avg = mean (map price (iloc quarter_size (quarter_size * 2) sorted_group));
            q3_avg = mean (map price (iloc (quarter_size * 2) (quarter_size * 3) sorted_group));
            q4_avg = mean (map price (drop (quarter_size * 3) sorted_group))
        in (pct_change q1_avg q4_avg, pct_change q1_avg q2_avg,
            pct_change q2_avg q3_avg, pct_change q3_avg q4_avg)
      else
        let half_point = length sorted_group div 2;
            first_half = (if 0 < half_point
                          then mean (map price (take half_point sorted_group)) else avg_price');
            second_half = (if 0 < half_point
                           then mean (map price (drop half_point sorted_group)) else avg_price')
        in (pct_change first_half second_half, Fin 0, Fin 0, Fin 0))"

text \<open>The row of a shop entry whose identifier has trades.\<close>

definition traded_row :: "shop_item \<Rightarrow> trade list \<Rightarrow> roi_row" where
  "traded_row shop_item grp =
     (let shop_cost' = cost shop_item;
          clean_group = clean_or_original grp;
          prices = map price clean_group;
          avg_price' = mean prices;
          median_price' = median prices;
          std_price' = std prices;
          min_price' = series_min prices;
          max_price' = series_max prices;
          trade_count' = length grp;
          cv = (if Fin 0 < avg_price' then std_price' / avg_price' * Fin 100 else Fin 0);
          sorted_group = sort_by_time clean_group;
          trend = price_trend sorted_group avg_price';
          days_active' = days_active_of sorted_group;
          profitable_trades = length (filter (\<lambda>t. shop_cost' < price t) clean_group);
          loss_trades = filter (\<lambda>t. price t < shop_cost') clean_group
      in \<lparr>r_item_id = shop_item_id shop_item,
          r_item_name = name shop_item,
          r_currency = currency shop_item,
          shop_cost = shop_cost',
          avg_price = avg_price',
          median_price = median_price',
          std_price = std_price',
          min_price = min_price',
          max_price = max_price',
          p25_price = quantile prices (1/4),
          p75_price = quantile prices (3/4),
          roi_avg = ((avg_price' - Fin shop_cost') / Fin shop_cost') * Fin 100,
          roi_median = ((median_price' - Fin shop_cost') / Fin shop_cost') * Fin 100,
          roi_min = ((min_price' - Fin shop_cost') / Fin shop_cost') * Fin 100,
          roi_max = ((max_price' - Fin shop_cost') / Fin shop_cost') * Fin 100,
          volatility_cv = cv,
          price_trend_overall = fst trend,
          price_trend_q1_q2 = fst (snd trend),
          price_trend_q2_q3 = fst (snd (snd trend)),
          price_trend_q3_q4 = snd (snd (snd trend)),
          trade_count = trade_count',
          outliers_removed = int (length grp) - int (length clean_group),
          total_volume = sum_list (map amount clean_group),
          liquidity_score = Fin (real trade_count') / Fin (real_of_int days_active'),
          days_active = days_active',
          break_even_probability =
            (if 0 < length clean_group
             then Fin (real profitable_trades) / Fin (real (length clean_group)) * Fin 100
             else Fin 0),
          avg_loss_pct =
            (if 0 < length loss_trades
             then (mean (map price loss_trades) - Fin shop_cost') / Fin shop_cost' * Fin 100
             else Fin 0),
          has_trades = True\<rparr>)"

text \<open>The row of a shop entry whose identifier has no trade.\<close>

definition dead_row :: "shop_item \<Rightarrow> roi_row" where
  "dead_row shop_item =
     \<lparr>r_item_id = shop_item_id shop_item,
      r_item_name = name shop_item,
      r_currency = currency shop_item,
      shop_cost = cost shop_item,
      avg_price = Fin 0, median_price = Fin 0, std_price = Fin 0,
      min_price = Fin 0, max_price = Fin 0, p25_price = Fin 0, p75_price = Fin 0,
      roi_avg = Fin (- 100), roi_median = Fin (- 100),
      roi_min = Fin (- 100), roi_max = Fin (- 100),
      volatility_cv = Fin 0,
      price_trend_overall = Fin 0, price_trend_q1_q2 = Fin 0,
      price_trend_q2_q3 = Fin 0, price_trend_q3_q4 = Fin 0,
      trade_count = 0, outliers_removed = 0, total_volume = 0,
      liquidity_score = Fin 0, days_active = 0,
      break_even_probability = Fin 0, avg_loss_pct = Fin (- 100),
      has_trades = False\<rparr>"

text \<open>One row for each shop entry, in the order of \<^verbatim>\<open>self.all_shop_items\<close>.\<close>

definition calculate_comprehensive_roi :: "shop_item list \<Rightarrow> trade list \<Rightarrow> roi_row list" where
  "calculate_comprehensive_roi all_shop_items df =
     map (\<lambda>shop_item.
            case trade_lookup df (shop_item_id shop_item) of
              Some grp \<Rightarrow> traded_row shop_item grp
            | None \<Rightarrow> dead_row shop_item)
         all_shop_items"

section \<open>Dead and unprofitable entries\<close>

text \<open>
  The selection that opens \<^verbatim>\<open>identify_exponentially_worse_items\<close>: the rows of the frame
  the mask keeps, in the order of the frame. The function then adds the columns
  \<^verbatim>\<open>severity_score\<close> and \<^verbatim>\<open>category\<close> to these rows and orders them by severity.
\<close>

definition never_worth_mask :: "roi_row \<Rightarrow> bool" where
  "never_worth_mask r =
     (has_trades r = False
      \<or> (max_price r < Fin (shop_cost r) * Fin (3/4) \<and> 3 \<le> trade_count r)
      \<or> (roi_median r < Fin (- 25) \<and> break_even_probability r < Fin 10 \<and> 5 \<le> trade_count r))"

definition never_worth :: "roi_row list \<Rightarrow> roi_row list" where
  "never_worth roi_df = filter never_worth_mask roi_df"

definition severity_score :: "roi_row \<Rightarrow> fnum" where
  "severity_score r =
     \<bar>roi_median r\<bar> * Fin (4/10)
     + (Fin 100 - break_even_probability r) * Fin (3/10)
     + \<bar>price_trend_overall r\<bar> * Fin (2/10)
     + Fin (shop_cost r) * Fin (1/10)"

definition category :: "roi_row \<Rightarrow> string" where
  "category r =
     (if has_trades r = True \<and> Fin 5 < break_even_probability r then ''VERY BAD''
      else if has_trades r = True then ''EXTREMELY BAD''
      else ''DEAD'')"

section \<open>Quantiles of a sorted column\<close>

lemma floor_index_bounds:
  fixes t :: real
  assumes "0 \<le> t" "t \<le> real m"
  shows "nat \<lfloor>t\<rfloor> \<le> m" and "0 \<le> t - real (nat \<lfloor>t\<rfloor>)" and "t - real (nat \<lfloor>t\<rfloor>) < 1"
proof -
  have f0: "0 \<le> \<lfloor>t\<rfloor>" using assms(1) by simp
  have "\<lfloor>t\<rfloor> \<le> int m" using assms(2) by (simp add: floor_le_iff)
  then show "nat \<lfloor>t\<rfloor> \<le> m" using f0 by linarith
  have eq: "real (nat \<lfloor>t\<rfloor>) = of_int \<lfloor>t\<rfloor>" using f0 by simp
  show "0 \<le> t - real (nat \<lfloor>t\<rfloor>)" unfolding eq by linarith
  show "t - real (nat \<lfloor>t\<rfloor>) < 1" unfolding eq by linarith
qed




lemma lerp_quantile_const:
  assumes ne: "xs \<noteq> []" and all: "\<forall>x\<in>set xs. x = p" and q: "0 \<le> q" "q \<le> 1"
  shows "lerp_quantile xs q = p"
proof -
  define s where "s = sort xs"
  have len: "length s = length xs" by (simp add: s_def)
  have sp: "\<And>i. i < length s \<Longrightarrow> s ! i = p"
    using all by (metis nth_mem s_def set_sort)
  have pos: "0 < length s" using ne len by simp
  have "real (length s - 1) * q \<le> real (length s - 1) * 1"
    using q by (intro mult_left_mono) simp_all
  then have "real (length s - 1) * q \<le> real (length s - 1)" by simp
  then have "nat \<lfloor>real (length s - 1) * q\<rfloor> \<le> length s - 1"
    using floor_index_bounds(1) q(1) by simp
  then have lo: "nat \<lfloor>real (length s - 1) * q\<rfloor> < length s" using pos by linarith
  have "min (nat \<lfloor>real (length s - 1) * q\<rfloor> + 1) (length s - 1) \<le> length s - 1"
    by (rule min.cobounded2)
  then have hi: "min (nat \<lfloor>real (length s - 1) * q\<rfloor> + 1) (length s - 1) < length s"
    using pos by linarith
  show ?thesis
    unfolding lerp_quantile_def Let_def s_def [symmetric]
    using sp [OF lo] sp [OF hi] by simp
qed

section \<open>The sentinel results\<close>

text \<open>
  Claim C3. When no trade of the item lies inside the window (for the window \<^verbatim>\<open>all\<close>:
  when the item has no trade at all), the window analyzer returns the sentinel result:
  \<^verbatim>\<open>has_data\<close> false, trade count 0, median and weighted median 0, ROI \<open>-100\<close>, the
  recommendation \<^verbatim>\<open>NO DATA\<close>, confidence 0 and the five zone thresholds 0, whatever the
  shop cost and the name of the window.
\<close>

theorem analyze_time_window_no_data:
  assumes "\<forall>t\<in>set df. item_id t = iid \<longrightarrow>
             (case window_delta of None \<Rightarrow> False | Some delta \<Rightarrow> time t < TODAY - delta)"
  shows "analyze_time_window df iid c window_name window_delta =
           Inr \<lparr>has_data = False, w_trade_count = 0, w_median_price = Fin 0,
                 ewma_median = Fin 0, roi = Fin (- 100), recommendation = Plain ''NO DATA'',
                 confidence = Fin 0,
                 zones = \<lparr>excellent = Fin 0, good = Fin 0, fair = Fin 0,
                          overpriced = Fin 0, avoid = Fin 0\<rparr>,
                 q1 = None, q3 = None, w_min_price = None, w_max_price = None\<rparr>"
proof -
  have "window_trades df iid window_delta = []"
    using assms
    by (cases window_delta) (auto simp: window_trades_def filter_empty_conv Let_def)
  then show ?thesis
    by (simp add: analyze_time_window_def no_data_result_def)
qed

theorem analyze_time_window_no_data_witness:
  "analyze_time_window
     [\<lparr>item_id = 7, item_name = ''Stone'', time = 0, price = 30, amount = 1\<rparr>,
      \<lparr>item_id = 8, item_name = ''Shard'', time = TODAY, price = 45, amount = 2\<rparr>]
     7 100 ''1h'' (Some 3600000000000)
   = Inr \<lparr>has_data = False, w_trade_count = 0, w_median_price = Fin 0,
           ewma_median = Fin 0, roi = Fin (- 100), recommendation = Plain ''NO DATA'',
           confidence = Fin 0,
           zones = \<lparr>excellent = Fin 0, good = Fin 0, fair = Fin 0,
                    overpriced = Fin 0, avoid = Fin 0\<rparr>,
           q1 = None, q3 = None, w_min_price = None, w_max_price = None\<rparr>"
  by (rule analyze_time_window_no_data) (simp add: TODAY_def)

text \<open>
  Claim C4. A shop entry whose identifier matches no trade of the analysis frame gets the
  dead-item row: \<^verbatim>\<open>has_trades\<close> false, the four ROI variants \<open>-100\<close>, trade count and total
  volume 0. The aggregator returns one row for each shop entry and has no failing path.
\<close>

theorem dead_item_row:
  assumes "i < length all_shop_items"
    and "\<forall>t\<in>set df. item_id t \<noteq> shop_item_id (all_shop_items ! i)"
  shows "length (calculate_comprehensive_roi all_shop_items df) = length all_shop_items
       \<and> calculate_comprehensive_roi all_shop_items df ! i = dead_row (all_shop_items ! i)
       \<and> has_trades (calculate_comprehensive_roi all_shop_items df ! i) = False
       \<and> roi_avg (calculate_comprehensive_roi all_shop_items df ! i) = Fin (- 100)
       \<and> roi_median (calculate_comprehensive_roi all_shop_items df ! i) = Fin (- 100)
       \<and> roi_min (calculate_comprehensive_roi all_shop_items df ! i) = Fin (- 100)
       \<and> roi_max (calculate_comprehensive_roi all_shop_items df ! i) = Fin (- 100)
       \<and> trade_count (calculate_comprehensive_roi all_shop_items df ! i) = 0
       \<and> total_volume (calculate_comprehensive_roi all_shop_items df ! i) = 0"
proof -
  have "trade_lookup df (shop_item_id (all_shop_items ! i)) = None"
    using assms(2) by (auto simp: trade_lookup_def filter_empty_conv)
  then have "calculate_comprehensive_roi all_shop_items df ! i = dead_row (all_shop_items ! i)"
    using assms(1) by (simp add: calculate_comprehensive_roi_def)
  then show ?thesis
    by (simp add: dead_row_def) (simp add: calculate_comprehensive_roi_def)
qed

theorem dead_item_row_witness:
  "calculate_comprehensive_roi
     [\<lparr>shop_item_id = 5, name = ''Relic'', cost = 500, currency = ''Blood Shards'', currency_id = 1\<rparr>]
     [\<lparr>item_id = 8, item_name = ''Shard'', time = 0, price = 45, amount = 2\<rparr>] ! 0
   = \<lparr>r_item_id = 5, r_item_name = ''Relic'', r_currency = ''Blood Shards'', shop_cost = 500,
      avg_price = Fin 0, median_price = Fin 0, std_price = Fin 0,
      min_price = Fin 0, max_price = Fin 0, p25_price = Fin 0, p75_price = Fin 0,
      roi_avg = Fin (- 100), roi_median = Fin (- 100),
      roi_min = Fin (- 100), roi_max = Fin (- 100),
      volatility_cv = Fin 0,
      price_trend_overall = Fin 0, price_trend_q1_q2 = Fin 0,
      price_trend_q2_q3 = Fin 0, price_trend_q3_q4 = Fin 0,
      trade_count = 0, outliers_removed = 0, total_volume = 0,
      liquidity_score = Fin 0, days_active = 0,
      break_even_probability = Fin 0, avg_loss_pct = Fin (- 100),
      has_trades = False\<rparr>"
  using dead_item_row [of 0
     "[\<lparr>shop_item_id = 5, name = ''Relic'', cost = 500, currency = ''Blood Shards'', currency_id = 1\<rparr>]"
     "[\<lparr>item_id = 8, item_name = ''Shard'', time = 0, price = 45, amount = 2\<rparr>]"]
  by (simp add: dead_row_def)

section \<open>Outlier filter and purchase zones\<close>

lemma Fin_minus [simp]: "Fin a - Fin b = Fin (a - b)"
  by (simp add: minus_fnum_def)

lemma detect_and_clean_outliers_Nil: "detect_and_clean_outliers [] = []"
  by (simp add: detect_and_clean_outliers_def)

lemma detect_and_clean_outliers_filter:
  assumes "grp \<noteq> []"
  shows "detect_and_clean_outliers grp =
           filter (\<lambda>t. lerp_quantile (map price grp) (1/4)
                          - 3 * (lerp_quantile (map price grp) (3/4) - lerp_quantile (map price grp) (1/4))
                        \<le> price t
                      \<and> price t \<le> lerp_quantile (map price grp) (3/4)
                          + 3 * (lerp_quantile (map price grp) (3/4) - lerp_quantile (map price grp) (1/4)))
                  grp"
  using assms by (simp add: detect_and_clean_outliers_def quantile_def Let_def)


lemma fl_Fin [simp]: "fl rnd (Fin a) = Fin (rnd a)"
  by (simp add: fl_def)

lemma np_lerp_exact: "np_lerp (\<lambda>x. x) a b t = a + (b - a) * t"
  by (simp add: np_lerp_def Let_def algebra_simps)

lemma quantile_fl_exact:
  assumes "0 \<le> q" "q \<le> 1"
  shows "quantile_fl (\<lambda>x. x) xs q = quantile xs q"
proof (cases "xs = []")
  case True
  then show ?thesis by (simp add: quantile_fl_def quantile_def)
next
  case False
  define s where "s = sort xs"
  define m where "m = length s - 1"
  define v where "v = real m * q"
  have len: "length s = Suc m" using False by (cases xs) (simp_all add: s_def m_def)
  have v0: "0 \<le> v" using assms(1) by (simp add: v_def)
  have "real m * q \<le> real m * 1" using assms(2) by (intro mult_left_mono) simp_all
  then have vm: "v \<le> real m" by (simp add: v_def)
  have fb: "nat \<lfloor>v\<rfloor> \<le> m" using floor_index_bounds(1) [OF v0 vm] .
  have f0: "0 \<le> \<lfloor>v\<rfloor>" using v0 by simp
  show ?thesis
  proof (cases "real m \<le> v")
    case True
    then have veq: "v = real m" using vm by simp
    have "nat \<lfloor>v\<rfloor> = m" unfolding veq by simp
    then show ?thesis
      using False True v0 len
      by (simp add: quantile_fl_def quantile_def lerp_quantile_def Let_def np_lerp_exact
            py_nth_def s_def [symmetric] m_def [symmetric] v_def [symmetric])
  next
    case lt: False
    then have "\<lfloor>v\<rfloor> < int m" by (simp add: floor_less_iff)
    then have nx: "min (nat \<lfloor>v\<rfloor> + 1) m = nat \<lfloor>v\<rfloor> + 1" using f0 by linarith
    have r: "real_of_int \<lfloor>v\<rfloor> = real (nat \<lfloor>v\<rfloor>)" using f0 by simp
    have n1: "nat (\<lfloor>v\<rfloor> + 1) = nat \<lfloor>v\<rfloor> + 1" using f0 by linarith
    show ?thesis
      using False lt v0 f0 len nx r n1
      by (simp add: quantile_fl_def quantile_def lerp_quantile_def Let_def np_lerp_exact
            py_nth_def s_def [symmetric] m_def [symmetric] v_def [symmetric] not_le)
  qed
qed

lemma detect_and_clean_outliers_exact:
  "detect_and_clean_outliers grp = detect_and_clean_outliers_fl (\<lambda>x. x) grp"
proof -
  have "fl (\<lambda>x. x) = (\<lambda>x. x)" by (rule ext) (simp add: fl_def split: fnum.splits)
  then show ?thesis
    by (simp add: detect_and_clean_outliers_def detect_and_clean_outliers_fl_def
          quantile_fl_exact Let_def)
qed

lemma detect_and_clean_outliers_fl_Nil: "detect_and_clean_outliers_fl rnd [] = []"
  by (simp add: detect_and_clean_outliers_fl_def)

lemma quantile_fl_Fin:
  "xs \<noteq> [] \<Longrightarrow> \<exists>Q. quantile_fl rnd xs q = Fin Q"
  by (simp add: quantile_fl_def Let_def)

text \<open>
  Claim C5. In the arithmetic of the program, whatever its rounding, the outlier filter
  returns a subsequence of its input, in the order of the input: exactly the records whose
  price lies in \<open>[Q1 - 3 * IQR, Q3 + 3 * IQR]\<close>, where \<open>Q1\<close> and \<open>Q3\<close> are the quartiles
  the program computes, \<open>IQR = Q3 - Q1\<close>, and every operation on them is rounded as the
  program rounds it. The empty sample comes back unchanged.
\<close>

theorem outlier_filter_subsequence:
  "subseq (detect_and_clean_outliers_fl rnd grp) grp
   \<and> detect_and_clean_outliers_fl rnd [] = []
   \<and> (grp \<noteq> [] \<longrightarrow>
        (\<exists>Q1 Q3. quantile_fl rnd (map price grp) (1/4) = Fin Q1
               \<and> quantile_fl rnd (map price grp) (3/4) = Fin Q3
               \<and> detect_and_clean_outliers_fl rnd grp =
                   filter (\<lambda>t. rnd (Q1 - rnd (3 * rnd (Q3 - Q1))) \<le> price t
                              \<and> price t \<le> rnd (Q3 + rnd (3 * rnd (Q3 - Q1)))) grp))"
proof (intro conjI impI)
  show "subseq (detect_and_clean_outliers_fl rnd grp) grp"
    by (simp add: detect_and_clean_outliers_fl_def Let_def)
  show "detect_and_clean_outliers_fl rnd [] = []"
    by (rule detect_and_clean_outliers_fl_Nil)
next
  assume ne: "grp \<noteq> []"
  then have ps: "map price grp \<noteq> []" by simp
  obtain Q1 where q1: "quantile_fl rnd (map price grp) (1/4) = Fin Q1"
    using quantile_fl_Fin [OF ps] by blast
  obtain Q3 where q3: "quantile_fl rnd (map price grp) (3/4) = Fin Q3"
    using quantile_fl_Fin [OF ps] by blast
  have "detect_and_clean_outliers_fl rnd grp =
          filter (\<lambda>t. rnd (Q1 - rnd (3 * rnd (Q3 - Q1))) \<le> price t
                     \<and> price t \<le> rnd (Q3 + rnd (3 * rnd (Q3 - Q1)))) grp"
    by (simp add: detect_and_clean_outliers_fl_def q1 q3 Let_def)
  then show "\<exists>Q1 Q3. quantile_fl rnd (map price grp) (1/4) = Fin Q1
               \<and> quantile_fl rnd (map price grp) (3/4) = Fin Q3
               \<and> detect_and_clean_outliers_fl rnd grp =
                   filter (\<lambda>t. rnd (Q1 - rnd (3 * rnd (Q3 - Q1))) \<le> price t
                              \<and> price t \<le> rnd (Q3 + rnd (3 * rnd (Q3 - Q1)))) grp"
    using q1 q3 by blast
qed

text \<open>
  The doubles 0.1, 0.1, 0.1 and 0.2, written as the fractions they are. Every operation
  of the filter on them is exact in doubles but one: the sum \<open>0.1 + 0.025\<close> inside the
  third quartile, whose nearest double is \<open>1/8\<close>. The rounding of this run is therefore
  the identity but at that sum. With it the upper bound is one unit in the last place
  below 0.2 and the fourth record is dropped.
\<close>

theorem outlier_filter_subsequence_witness:
  "[\<lparr>item_id = 1, item_name = ''Stone'', time = 1, price = 3602879701896397 / 36028797018963968, amount = 1\<rparr>,
    \<lparr>item_id = 1, item_name = ''Stone'', time = 2, price = 3602879701896397 / 36028797018963968, amount = 1\<rparr>,
    \<lparr>item_id = 1, item_name = ''Stone'', time = 3, price = 3602879701896397 / 36028797018963968, amount = 1\<rparr>,
    \<lparr>item_id = 1, item_name = ''Stone'', time = 4, price = 3602879701896397 / 18014398509481984, amount = 1\<rparr>] \<noteq> []
   \<and> detect_and_clean_outliers_fl
       (\<lambda>x. if x = 18014398509481985 / 144115188075855872 then 1 / 8 else x)
       [\<lparr>item_id = 1, item_name = ''Stone'', time = 1, price = 3602879701896397 / 36028797018963968, amount = 1\<rparr>,
        \<lparr>item_id = 1, item_name = ''Stone'', time = 2, price = 3602879701896397 / 36028797018963968, amount = 1\<rparr>,
        \<lparr>item_id = 1, item_name = ''Stone'', time = 3, price = 3602879701896397 / 36028797018963968, amount = 1\<rparr>,
        \<lparr>item_id = 1, item_name = ''Stone'', time = 4, price = 3602879701896397 / 18014398509481984, amount = 1\<rparr>]
     = [\<lparr>item_id = 1, item_name = ''Stone'', time = 1, price = 3602879701896397 / 36028797018963968, amount = 1\<rparr>,
        \<lparr>item_id = 1, item_name = ''Stone'', time = 2, price = 3602879701896397 / 36028797018963968, amount = 1\<rparr>,
        \<lparr>item_id = 1, item_name = ''Stone'', time = 3, price = 3602879701896397 / 36028797018963968, amount = 1\<rparr>]"
proof -
  let ?rnd = "\<lambda>x::real. if x = 18014398509481985 / 144115188075855872 then 1 / 8 else x"
  let ?grp = "[\<lparr>item_id = 1, item_name = ''Stone'', time = 1, price = 3602879701896397 / 36028797018963968, amount = 1\<rparr>,
        \<lparr>item_id = 1, item_name = ''Stone'', time = 2, price = 3602879701896397 / 36028797018963968, amount = 1\<rparr>,
        \<lparr>item_id = 1, item_name = ''Stone'', time = 3, price = 3602879701896397 / 36028797018963968, amount = 1\<rparr>,
        \<lparr>item_id = 1, item_name = ''Stone'', time = 4, price = 3602879701896397 / 18014398509481984, amount = 1\<rparr>]"
  have ne: "?grp \<noteq> []" by simp
  have q1: "quantile_fl ?rnd (map price ?grp) (1/4) = Fin (3602879701896397 / 36028797018963968)"
    by (simp add: quantile_fl_def np_lerp_def py_nth_def Let_def)
  have q3: "quantile_fl ?rnd (map price ?grp) (3/4) = Fin (1 / 8)"
    by (simp add: quantile_fl_def np_lerp_def py_nth_def Let_def)
  obtain Q1 Q3 where "quantile_fl ?rnd (map price ?grp) (1/4) = Fin Q1"
    and "quantile_fl ?rnd (map price ?grp) (3/4) = Fin Q3"
    and f: "detect_and_clean_outliers_fl ?rnd ?grp =
              filter (\<lambda>t. ?rnd (Q1 - ?rnd (3 * ?rnd (Q3 - Q1))) \<le> price t
                         \<and> price t \<le> ?rnd (Q3 + ?rnd (3 * ?rnd (Q3 - Q1)))) ?grp"
    using outlier_filter_subsequence [of ?rnd ?grp] ne by blast
  then have "Q1 = 3602879701896397 / 36028797018963968" and "Q3 = 1 / 8"
    using q1 q3 by simp_all
  then show ?thesis using f by simp
qed

text \<open>
  In exact arithmetic the same upper bound is 0.2 itself, and the fourth record is kept:
  a record on the bound is decided by the rounding.
\<close>

lemma outlier_filter_exact_bound:
  "detect_and_clean_outliers
       [\<lparr>item_id = 1, item_name = ''Stone'', time = 1, price = 3602879701896397 / 36028797018963968, amount = 1\<rparr>,
        \<lparr>item_id = 1, item_name = ''Stone'', time = 2, price = 3602879701896397 / 36028797018963968, amount = 1\<rparr>,
        \<lparr>item_id = 1, item_name = ''Stone'', time = 3, price = 3602879701896397 / 36028797018963968, amount = 1\<rparr>,
        \<lparr>item_id = 1, item_name = ''Stone'', time = 4, price = 3602879701896397 / 18014398509481984, amount = 1\<rparr>]
     = [\<lparr>item_id = 1, item_name = ''Stone'', time = 1, price = 3602879701896397 / 36028797018963968, amount = 1\<rparr>,
        \<lparr>item_id = 1, item_name = ''Stone'', time = 2, price = 3602879701896397 / 36028797018963968, amount = 1\<rparr>,
        \<lparr>item_id = 1, item_name = ''Stone'', time = 3, price = 3602879701896397 / 36028797018963968, amount = 1\<rparr>,
        \<lparr>item_id = 1, item_name = ''Stone'', time = 4, price = 3602879701896397 / 18014398509481984, amount = 1\<rparr>]"
  by (simp add: detect_and_clean_outliers_def quantile_def lerp_quantile_def Let_def)

text \<open>
  What the later proofs use of the cleaned sample holds for every rounding: it is the
  exact one when the rounding is the identity, it is never empty for a sample that is not
  empty and never longer than the sample, and a sample of one record or of equal prices
  is its own cleaned sample, because the mask keeps all of its records or none and the
  fallback restores them.
\<close>

lemma clean_or_original_exact: "clean_or_original grp = clean_or_original_fl (\<lambda>x. x) grp"
  by (simp add: clean_or_original_def clean_or_original_fl_def detect_and_clean_outliers_exact)

lemma clean_or_original_fl_nonempty: "grp \<noteq> [] \<Longrightarrow> clean_or_original_fl rnd grp \<noteq> []"
  by (simp add: clean_or_original_fl_def Let_def)

lemma clean_or_original_fl_length: "length (clean_or_original_fl rnd grp) \<le> length grp"
  by (simp add: clean_or_original_fl_def detect_and_clean_outliers_fl_def Let_def)

lemma filter_equal_prices:
  assumes "\<forall>t\<in>set grp. price t = p"
  shows "filter (\<lambda>t. P (price t)) grp = (if P p then grp else [])"
  using assms by (induction grp) auto

lemma clean_or_original_fl_const:
  assumes "\<forall>t\<in>set grp. price t = p"
  shows "clean_or_original_fl rnd grp = grp"
proof -
  obtain P where "detect_and_clean_outliers_fl rnd grp = filter (\<lambda>t. P (price t)) grp"
    by (simp add: detect_and_clean_outliers_fl_def Let_def)
  then have "detect_and_clean_outliers_fl rnd grp = (if P p then grp else [])"
    using filter_equal_prices [OF assms] by simp
  then show ?thesis by (simp add: clean_or_original_fl_def)
qed

lemma clean_or_original_fl_single: "clean_or_original_fl rnd [t] = [t]"
  by (rule clean_or_original_fl_const [of "[t]" "price t"]) simp





section \<open>The confidence score and its clamp\<close>

lemma clamp_range:
  "\<exists>s. py_min (Fin 100) (py_max (Fin 0) v) = Fin s \<and> 0 \<le> s \<and> s \<le> 100"
  by (cases v) (auto simp: py_min_def py_max_def)

lemma clamp_Fin:
  "0 < x \<Longrightarrow> x < 100 \<Longrightarrow> py_min (Fin 100) (py_max (Fin 0) (Fin x)) = Fin x"
  by (simp add: py_min_def py_max_def)

lemma clamp_NaN: "py_min (Fin 100) (py_max (Fin 0) NaN) = Fin 0"
  by (simp add: py_min_def py_max_def)

text \<open>
  Claim C6. The confidence score is a number of the closed interval from 0 to 100 for
  every sample and every shop cost, and it is 0 for the empty sample.
\<close>

theorem confidence_score_range:
  "(\<exists>s. calculate_confidence_score grp c = Fin s \<and> 0 \<le> s \<and> s \<le> 100)
   \<and> calculate_confidence_score [] c = Fin 0"
proof
  show "\<exists>s. calculate_confidence_score grp c = Fin s \<and> 0 \<le> s \<and> s \<le> 100"
  proof (cases "grp = []")
    case True
    then show ?thesis by (simp add: calculate_confidence_score_def)
  next
    case False
    then show ?thesis
      using clamp_range by (simp add: calculate_confidence_score_def Let_def)
  qed
  show "calculate_confidence_score [] c = Fin 0"
    by (simp add: calculate_confidence_score_def)
qed

lemma lerp_quantile_single: "lerp_quantile [p] q = p"
  by (simp add: lerp_quantile_def)

lemma clean_or_original_single: "clean_or_original [t] = [t]"
  by (simp add: clean_or_original_def detect_and_clean_outliers_def quantile_def
        lerp_quantile_single Let_def)

lemma days_active_of_single: "days_active_of [t] = 1"
  by (simp add: days_active_of_def)

lemma sample_score_single: "sample_score [t] = Fin (40 * (1 - exp (- (1/50))))"
  by (simp add: sample_score_def)

lemma liquidity_score_single: "liquidity_score_of [t] = Fin (30 * (1 - exp (- (1/2))))"
  by (simp add: liquidity_score_of_def days_active_of_single)

lemma volatility_score_single:
  "volatility_score [t] = (if 0 < price t then NaN else Fin (30 * exp (- 2)))"
  by (simp add: volatility_score_def mean_def std_def)

text \<open>
  Claim C10, as the code has it. For a sample of exactly one trade whose price is
  positive, the standard deviation is \<^verbatim>\<open>NaN\<close>, the volatility factor and the total are
  \<^verbatim>\<open>NaN\<close>, and the clamp returns 0, although the sample-size factor and the liquidity
  factor are positive.
\<close>

theorem confidence_single_trade:
  assumes "0 < price t"
  shows "calculate_confidence_score [t] c = Fin 0
       \<and> std (map price (clean_or_original [t])) = NaN
       \<and> volatility_score (clean_or_original [t]) = NaN
       \<and> Fin 0 < sample_score (clean_or_original [t])
       \<and> Fin 0 < liquidity_score_of (clean_or_original [t])"
proof -
  have v: "volatility_score [t] = NaN"
    using assms by (simp add: volatility_score_single)
  have "calculate_confidence_score [t] c = Fin 0"
    by (simp add: calculate_confidence_score_def clean_or_original_single Let_def
          sample_score_single liquidity_score_single v clamp_NaN)
  moreover have "std (map price [t]) = NaN" by (simp add: std_def)
  moreover have "Fin 0 < sample_score [t]" by (simp add: sample_score_single)
  moreover have "Fin 0 < liquidity_score_of [t]" by (simp add: liquidity_score_single)
  ultimately show ?thesis using v by (simp add: clean_or_original_single)
qed

theorem confidence_single_trade_witness:
  "calculate_confidence_score
     [\<lparr>item_id = 1, item_name = ''Stone'', time = 0, price = 30, amount = 1\<rparr>] 100 = Fin 0"
  using confidence_single_trade
    [of "\<lparr>item_id = 1, item_name = ''Stone'', time = 0, price = 30, amount = 1\<rparr>" 100]
  by simp

text \<open>
  Claim C10 as stated fails for a single trade of price 0: the mean is not positive, the
  coefficient of variation is set to 100 without the standard deviation, and the score is
  the positive sum of the three factors.
\<close>

theorem confidence_single_trade_counterexample:
  "calculate_confidence_score
     [\<lparr>item_id = 1, item_name = ''Stone'', time = 0, price = 0, amount = 1\<rparr>] 100 \<noteq> Fin 0"
proof -
  define x :: real where "x = 40 * (1 - exp (- (1/50))) + 30 * exp (- 2) + 30 * (1 - exp (- (1/2)))"
  have e1: "exp (- (1/50)) < (1::real)" "0 < exp (- (1/50) :: real)" by simp_all
  have e2: "exp (- 2) < (1::real)" "0 < exp (- 2 :: real)" by simp_all
  have e3: "exp (- (1/2)) < (1::real)" "0 < exp (- (1/2) :: real)" by simp_all
  have pos: "0 < x" unfolding x_def using e1 e2 e3 by argo
  have lt: "x < 100" unfolding x_def using e1 e2 e3 by argo
  have "calculate_confidence_score
     [\<lparr>item_id = 1, item_name = ''Stone'', time = 0, price = 0, amount = 1\<rparr>] 100
     = py_min (Fin 100) (py_max (Fin 0) (Fin x))"
    by (simp add: calculate_confidence_score_def clean_or_original_single Let_def
          sample_score_single liquidity_score_single volatility_score_single x_def)
  then show ?thesis using clamp_Fin [OF pos lt] pos by simp
qed

section \<open>The weighted median of equal prices\<close>

lemma cumsum_from_Fin_last:
  "ws \<noteq> [] \<Longrightarrow> last (cumsum_from (Fin a) (map Fin ws)) = Fin (a + sum_list ws)"
proof (induction ws arbitrary: a)
  case Nil
  then show ?case by simp
next
  case (Cons w ws)
  show ?case
  proof (cases "ws = []")
    case True
    then show ?thesis by simp
  next
    case False
    then have "cumsum_from (Fin (a + w)) (map Fin ws) \<noteq> []" by (cases ws) simp_all
    then show ?thesis using Cons.IH [OF False, of "a + w"] by (simp add: add.assoc)
  qed
qed

lemma np_cumsum_Fin_last:
  assumes "ws \<noteq> []"
  shows "last (np_cumsum (map Fin ws)) = Fin (sum_list ws)"
proof -
  obtain w ws' where ws: "ws = w # ws'" using assms by (cases ws) simp_all
  show ?thesis
  proof (cases "ws' = []")
    case True
    then show ?thesis using ws by simp
  next
    case False
    then have "cumsum_from (Fin w) (map Fin ws') \<noteq> []" by (cases ws') simp_all
    then show ?thesis using ws cumsum_from_Fin_last [OF False, of w] by simp
  qed
qed

lemma length_cumsum_from [simp]: "length (cumsum_from a xs) = length xs"
  by (induction xs arbitrary: a) simp_all

lemma length_np_cumsum [simp]: "length (np_cumsum xs) = length xs"
  by (cases xs) simp_all

lemma searchsorted_in_range:
  assumes "a \<noteq> []" and "\<not> last a < v"
  shows "searchsorted a v < length a"
proof -
  have "last a \<in> set a" using assms(1) by simp
  then have "\<not> (\<forall>c\<in>set a. c < v)" using assms(2) by blast
  then have "takeWhile (\<lambda>c. c < v) a \<noteq> a" by (simp add: takeWhile_eq_all_conv)
  moreover have "length (takeWhile (\<lambda>c. c < v) a) \<le> length a" by (rule length_takeWhile_le)
  ultimately show ?thesis
    unfolding searchsorted_def
    by (metis le_neq_implies_less takeWhile_eq_take take_all_iff order_refl)
qed

lemma argsort_props:
  "length (argsort ps) = length ps" "set (argsort ps) = {0..<length ps}" "distinct (argsort ps)"
  by (simp_all add: argsort_def)

text \<open>
  Claim C7. For a sample that is not empty and whose records all have the price \<open>p\<close>,
  and for a decay factor \<open>0 < \<alpha> < 1\<close>, the weighted median is computed without an index
  error and equals \<open>p\<close>.
\<close>

theorem ewma_median_equal_prices:
  assumes ne: "grp \<noteq> []"
    and eq: "\<forall>t\<in>set grp. price t = p"
    and a0: "0 < alpha" and a1: "alpha < 1"
  shows "calculate_ewma_median grp alpha = Inr p"
proof -
  define prices where "prices = map price (sort_by_time grp)"
  define n where "n = length prices"
  define raw where "raw = map (\<lambda>i. (1 - alpha) ^ (n - i - 1)) [0..<n]"
  define S where "S = sum_list raw"
  define weights where "weights = map (\<lambda>w. Fin w / Fin S) raw"
  define idx where "idx = argsort prices"
  define ws where "ws = map (\<lambda>i. raw ! i / S) idx"
  have n_pos: "0 < n" using ne by (simp add: n_def prices_def sort_by_time_def)
  have len_raw: "length raw = n" by (simp add: raw_def)
  have "\<forall>x\<in>set prices. x = p"
    using eq by (auto simp: prices_def sort_by_time_def)
  then have prices_p: "\<And>i. i < n \<Longrightarrow> prices ! i = p"
    by (simp add: n_def)
  have raw_pos: "\<And>i. i < n \<Longrightarrow> 0 < raw ! i"
    using a1 by (simp add: raw_def)
  have S_sum: "S = (\<Sum>i\<in>{0..<n}. raw ! i)"
    unfolding S_def using len_raw
    by (metis atLeastLessThan_upt distinct_upt map_nth sum_list_distinct_conv_sum_set)
  have S_pos: "0 < S"
    unfolding S_sum using raw_pos n_pos by (intro sum_pos) auto
  have idx_props: "length idx = n" "set idx = {0..<n}" "distinct idx"
    using argsort_props [of prices] by (simp_all add: idx_def n_def)
  have sorted_prices: "\<And>k. k < n \<Longrightarrow> map (\<lambda>i. prices ! i) idx ! k = p"
    using idx_props prices_p by (metis atLeastLessThan_iff nth_map nth_mem)
  have "\<And>i. i \<in> set idx \<Longrightarrow> weights ! i = Fin (raw ! i / S)"
    using idx_props(2) S_pos len_raw by (simp add: weights_def)
  then have sorted_weights: "map (\<lambda>i. weights ! i) idx = map Fin ws"
    by (simp add: ws_def)
  have "sum_list ws = (\<Sum>i\<in>{0..<n}. raw ! i / S)"
    unfolding ws_def using idx_props by (simp add: sum_list_distinct_conv_sum_set)
  also have "\<dots> = (\<Sum>i\<in>{0..<n}. raw ! i) / S" by (rule sum_divide_distrib [symmetric])
  also have "\<dots> = S / S" by (simp only: S_sum [symmetric])
  also have "\<dots> = 1" using S_pos by simp
  finally have total: "sum_list ws = 1" .
  have ws_ne: "ws \<noteq> []" using idx_props(1) n_pos by (auto simp: ws_def)
  have last_one: "last (np_cumsum (map Fin ws)) = Fin 1"
    using np_cumsum_Fin_last [OF ws_ne] total by simp
  have "np_cumsum (map Fin ws) \<noteq> []" using ws_ne by (cases ws) simp_all
  moreover have "\<not> last (np_cumsum (map Fin ws)) < Fin (1/2)"
    using last_one by simp
  ultimately have "searchsorted (np_cumsum (map Fin ws)) (Fin (1/2)) < length (np_cumsum (map Fin ws))"
    by (rule searchsorted_in_range)
  then have in_range: "searchsorted (np_cumsum (map Fin ws)) (Fin (1/2)) < n"
    using idx_props(1) by (simp add: ws_def)
  have "calculate_ewma_median grp alpha =
          (if length grp = 0 then Inr 0
           else if searchsorted (np_cumsum (map (\<lambda>i. weights ! i) idx)) (Fin (1/2))
                   < length (map (\<lambda>i. prices ! i) idx)
           then Inr (map (\<lambda>i. prices ! i) idx
                       ! searchsorted (np_cumsum (map (\<lambda>i. weights ! i) idx)) (Fin (1/2)))
           else Inl IndexError)"
    unfolding calculate_ewma_median_def Let_def weights_def S_def raw_def idx_def n_def prices_def
    by (rule refl)
  then show ?thesis
    using ne in_range sorted_prices [OF in_range] idx_props(1)
    by (simp add: sorted_weights)
qed

theorem ewma_median_equal_prices_witness:
  "calculate_ewma_median
     [\<lparr>item_id = 1, item_name = ''Stone'', time = 5, price = 30, amount = 1\<rparr>,
      \<lparr>item_id = 1, item_name = ''Stone'', time = 2, price = 30, amount = 4\<rparr>,
      \<lparr>item_id = 1, item_name = ''Stone'', time = 9, price = 30, amount = 2\<rparr>] (3/10) = Inr 30"
  by (rule ewma_median_equal_prices) simp_all

section \<open>The trend of a small sample\<close>

lemma traded_row_nth:
  assumes "i < length all_shop_items"
    and "filter (\<lambda>t. item_id t = shop_item_id (all_shop_items ! i)) df \<noteq> []"
  shows "calculate_comprehensive_roi all_shop_items df ! i =
           traded_row (all_shop_items ! i)
             (filter (\<lambda>t. item_id t = shop_item_id (all_shop_items ! i)) df)"
  using assms by (simp add: calculate_comprehensive_roi_def trade_lookup_def Let_def)








section \<open>The selection of entries never worth buying\<close>

lemma fold_max_const: "\<forall>x\<in>set xs. x = p \<Longrightarrow> fold max xs (p::real) = p"
  by (induction xs) simp_all

lemma series_max_const:
  assumes "xs \<noteq> []" and "\<forall>x\<in>set xs. x = p"
  shows "series_max xs = Fin p"
proof -
  obtain y ys where xs: "xs = y # ys" using assms(1) by (cases xs) simp_all
  then have "y = p" "\<forall>x\<in>set ys. x = p" using assms(2) by simp_all
  then show ?thesis using xs by (simp add: fold_max_const)
qed

lemma clean_or_original_const:
  assumes "\<forall>t\<in>set grp. price t = p"
  shows "clean_or_original grp = grp"
proof (cases "grp = []")
  case True
  then show ?thesis by (simp add: clean_or_original_def detect_and_clean_outliers_Nil)
next
  case False
  then have ne: "map price grp \<noteq> []" by simp
  have all: "\<forall>x\<in>set (map price grp). x = p" using assms by auto
  have q: "lerp_quantile (map price grp) (1/4) = p" "lerp_quantile (map price grp) (3/4) = p"
    by (simp_all add: lerp_quantile_const [OF ne all])
  have "detect_and_clean_outliers grp = grp"
    using assms by (simp add: detect_and_clean_outliers_filter [OF False] q)
  then show ?thesis using False by (simp add: clean_or_original_def)
qed

lemma traded_row_fields:
  "has_trades (traded_row s grp) = True"
  "trade_count (traded_row s grp) = length grp"
  "shop_cost (traded_row s grp) = cost s"
  "max_price (traded_row s grp) = series_max (map price (clean_or_original grp))"
  by (simp_all add: traded_row_def Let_def)

text \<open>
  Claim C8. A row of the aggregate frame is selected as never worth it exactly when it has
  no trades, or its trade count is at least 3 and its maximal price is below 75% of the
  shop cost, or its trade count is at least 5, its median ROI is below \<open>-25\<close> and its
  break-even probability is below 10. In particular the row of a shop entry of cost 100
  whose trades, at least 3, are all priced 30 is selected: its maximal price is 30.
\<close>

theorem never_worth_iff:
  "(r \<in> set (never_worth roi_df) \<longleftrightarrow>
      r \<in> set roi_df
      \<and> (\<not> has_trades r
         \<or> (3 \<le> trade_count r \<and> max_price r < Fin (shop_cost r) * Fin (3/4))
         \<or> (5 \<le> trade_count r \<and> roi_median r < Fin (- 25)
             \<and> break_even_probability r < Fin 10)))
   \<and> (i < length all_shop_items
        \<and> cost (all_shop_items ! i) = 100
        \<and> 3 \<le> length (filter (\<lambda>t. item_id t = shop_item_id (all_shop_items ! i)) df)
        \<and> (\<forall>t\<in>set df. item_id t = shop_item_id (all_shop_items ! i) \<longrightarrow> price t = 30)
      \<longrightarrow> max_price (calculate_comprehensive_roi all_shop_items df ! i) = Fin 30
          \<and> calculate_comprehensive_roi all_shop_items df ! i
              \<in> set (never_worth (calculate_comprehensive_roi all_shop_items df)))"
proof (intro conjI impI)
  show "r \<in> set (never_worth roi_df) \<longleftrightarrow>
      r \<in> set roi_df
      \<and> (\<not> has_trades r
         \<or> (3 \<le> trade_count r \<and> max_price r < Fin (shop_cost r) * Fin (3/4))
         \<or> (5 \<le> trade_count r \<and> roi_median r < Fin (- 25)
             \<and> break_even_probability r < Fin 10))"
    by (auto simp: never_worth_def never_worth_mask_def)
next
  assume a: "i < length all_shop_items
        \<and> cost (all_shop_items ! i) = 100
        \<and> 3 \<le> length (filter (\<lambda>t. item_id t = shop_item_id (all_shop_items ! i)) df)
        \<and> (\<forall>t\<in>set df. item_id t = shop_item_id (all_shop_items ! i) \<longrightarrow> price t = 30)"
  define grp where "grp = filter (\<lambda>t. item_id t = shop_item_id (all_shop_items ! i)) df"
  have i: "i < length all_shop_items" and c: "cost (all_shop_items ! i) = 100"
    and n: "3 \<le> length grp" and p: "\<forall>t\<in>set grp. price t = 30"
    using a by (auto simp: grp_def)
  have ne: "grp \<noteq> []" using n by auto
  have row: "calculate_comprehensive_roi all_shop_items df ! i = traded_row (all_shop_items ! i) grp"
    using traded_row_nth [OF i] ne by (simp add: grp_def)
  have clean: "clean_or_original grp = grp" by (rule clean_or_original_const [OF p])
  have "series_max (map price grp) = Fin 30"
    using ne p by (intro series_max_const) auto
  then have mx: "max_price (traded_row (all_shop_items ! i) grp) = Fin 30"
    by (simp add: traded_row_fields clean)
  have "never_worth_mask (traded_row (all_shop_items ! i) grp)"
    using mx n c by (simp add: never_worth_mask_def traded_row_fields)
  moreover have "traded_row (all_shop_items ! i) grp \<in> set (calculate_comprehensive_roi all_shop_items df)"
    using row i by (metis calculate_comprehensive_roi_def length_map nth_mem)
  ultimately have "traded_row (all_shop_items ! i) grp
                    \<in> set (never_worth (calculate_comprehensive_roi all_shop_items df))"
    by (simp add: never_worth_def)
  then show "max_price (calculate_comprehensive_roi all_shop_items df ! i) = Fin 30"
    and "calculate_comprehensive_roi all_shop_items df ! i
              \<in> set (never_worth (calculate_comprehensive_roi all_shop_items df))"
    using mx row by simp_all
qed

theorem never_worth_iff_witness:
  "max_price
     (calculate_comprehensive_roi
        [\<lparr>shop_item_id = 26, name = ''Z'', cost = 100, currency = ''Blood Shards'', currency_id = 1\<rparr>]
        [\<lparr>item_id = 26, item_name = ''Z'', time = 1, price = 30, amount = 1\<rparr>,
         \<lparr>item_id = 26, item_name = ''Z'', time = 2, price = 30, amount = 2\<rparr>,
         \<lparr>item_id = 26, item_name = ''Z'', time = 3, price = 30, amount = 1\<rparr>] ! 0) = Fin 30
   \<and> calculate_comprehensive_roi
        [\<lparr>shop_item_id = 26, name = ''Z'', cost = 100, currency = ''Blood Shards'', currency_id = 1\<rparr>]
        [\<lparr>item_id = 26, item_name = ''Z'', time = 1, price = 30, amount = 1\<rparr>,
         \<lparr>item_id = 26, item_name = ''Z'', time = 2, price = 30, amount = 2\<rparr>,
         \<lparr>item_id = 26, item_name = ''Z'', time = 3, price = 30, amount = 1\<rparr>] ! 0
      \<in> set (never_worth
          (calculate_comprehensive_roi
             [\<lparr>shop_item_id = 26, name = ''Z'', cost = 100, currency = ''Blood Shards'', currency_id = 1\<rparr>]
             [\<lparr>item_id = 26, item_name = ''Z'', time = 1, price = 30, amount = 1\<rparr>,
              \<lparr>item_id = 26, item_name = ''Z'', time = 2, price = 30, amount = 2\<rparr>,
              \<lparr>item_id = 26, item_name = ''Z'', time = 3, price = 30, amount = 1\<rparr>]))"
proof -
  let ?items = "[\<lparr>shop_item_id = 26, name = ''Z'', cost = 100, currency = ''Blood Shards'', currency_id = 1\<rparr>]"
  let ?df = "[\<lparr>item_id = 26, item_name = ''Z'', time = 1, price = 30, amount = 1\<rparr>,
              \<lparr>item_id = 26, item_name = ''Z'', time = 2, price = 30, amount = 2\<rparr>,
              \<lparr>item_id = 26, item_name = ''Z'', time = 3, price = 30, amount = 1\<rparr>]"
  have h: "0 < length ?items
        \<and> cost (?items ! 0) = 100
        \<and> 3 \<le> length (filter (\<lambda>t. item_id t = shop_item_id (?items ! 0)) ?df)
        \<and> (\<forall>t\<in>set ?df. item_id t = shop_item_id (?items ! 0) \<longrightarrow> price t = 30)"
    by simp
  show ?thesis
    by (rule mp [OF conjunct2 [OF never_worth_iff
          [of "calculate_comprehensive_roi ?items ?df ! 0"
              "calculate_comprehensive_roi ?items ?df" 0 ?items ?df]] h])
qed

section \<open>Shop entries of cost zero\<close>

lemma window_roi_nonpositive_cost:
  assumes "c \<le> 0" and "analyze_time_window df iid c window_name window_delta = Inr res"
  shows "roi res = Fin (- 100)"
  using assms
  by (auto simp: analyze_time_window_def no_data_result_def Let_def
           split: if_splits sum.splits)

text \<open>
  Claim C2 against the code. The window analyzer guards its ROI with
  \<^verbatim>\<open>if shop_cost > 0 else -100\<close>; the aggregator divides by the shop cost without the
  guard. For a shop entry of cost 0 with one trade priced 5 the four ROI variants are
  the numpy quotient \<open>5 / 0\<close>, positive infinity, and not \<open>-100\<close>; for a cost of \<open>-10\<close>
  they are \<open>-150\<close>.
\<close>

theorem aggregator_roi_nonpositive_cost:
  "roi_avg (calculate_comprehensive_roi
      [\<lparr>shop_item_id = 1, name = ''Stone'', cost = 0, currency = ''Blood Shards'', currency_id = 1\<rparr>]
      [\<lparr>item_id = 1, item_name = ''Stone'', time = 1, price = 5, amount = 1\<rparr>] ! 0) = PInf
   \<and> roi_median (calculate_comprehensive_roi
      [\<lparr>shop_item_id = 1, name = ''Stone'', cost = 0, currency = ''Blood Shards'', currency_id = 1\<rparr>]
      [\<lparr>item_id = 1, item_name = ''Stone'', time = 1, price = 5, amount = 1\<rparr>] ! 0) = PInf
   \<and> roi_min (calculate_comprehensive_roi
      [\<lparr>shop_item_id = 1, name = ''Stone'', cost = 0, currency = ''Blood Shards'', currency_id = 1\<rparr>]
      [\<lparr>item_id = 1, item_name = ''Stone'', time = 1, price = 5, amount = 1\<rparr>] ! 0) = PInf
   \<and> roi_max (calculate_comprehensive_roi
      [\<lparr>shop_item_id = 1, name = ''Stone'', cost = 0, currency = ''Blood Shards'', currency_id = 1\<rparr>]
      [\<lparr>item_id = 1, item_name = ''Stone'', time = 1, price = 5, amount = 1\<rparr>] ! 0) = PInf
   \<and> roi_avg (calculate_comprehensive_roi
      [\<lparr>shop_item_id = 1, name = ''Stone'', cost = - 10, currency = ''Blood Shards'', currency_id = 1\<rparr>]
      [\<lparr>item_id = 1, item_name = ''Stone'', time = 1, price = 5, amount = 1\<rparr>] ! 0) = Fin (- 150)"
  by (simp add: calculate_comprehensive_roi_def trade_lookup_def traded_row_def Let_def
        clean_or_original_single mean_def median_def)

end
